theory Spec2Isabelle
  imports Main
begin

section \<open>JavaScript values used by the handlers\<close>

text \<open>
  The service is \<^verbatim>\<open>src/index.js\<close>: an Express application over two Mongoose models.
  Body fields, query parameters and path parameters arrive as strings; a field that
  is not sent is \<^verbatim>\<open>undefined\<close>. A field is modelled as a \<open>string option\<close>, \<open>None\<close>
  being \<^verbatim>\<open>undefined\<close>: every field occurs at most once in the request and is a plain
  string (repeated keys, which the parsers turn into arrays, are outside the model).
  Strings are HOL strings, so a character is one of 256 code units.
\<close>

definition truthy :: "string option \<Rightarrow> bool" where
  "truthy v = (case v of None \<Rightarrow> False | Some s \<Rightarrow> s \<noteq> [])"

definition ToString :: "string option \<Rightarrow> string" where
  "ToString v = (case v of None \<Rightarrow> ''undefined'' | Some s \<Rightarrow> s)"

text \<open>
  A JavaScript number as \<^verbatim>\<open>parseInt\<close> can produce it: not-a-number, a finite
  integer-valued double, or an infinity. Negative zero is identified with zero.
\<close>

datatype number = NaN | Finite int | PosInfinity | NegInfinity

definition isNaN :: "number \<Rightarrow> bool" where
  "isNaN x = (x = NaN)"

definition positive :: "number \<Rightarrow> bool" where
  "positive x = (case x of Finite n \<Rightarrow> 0 < n | PosInfinity \<Rightarrow> True | _ \<Rightarrow> False)"

function bit_length :: "int \<Rightarrow> nat" where
  "bit_length n = (if n \<le> 0 then 0 else Suc (bit_length (n div 2)))"
  by pat_completeness auto
termination
  by (relation "measure nat") auto

declare bit_length.simps [simp del]

text \<open>
  The double nearest to a non-negative integer (round to nearest, ties to even, 53
  significant bits); a value that rounds to \<open>2 ^ 1024\<close> or more is infinite.
\<close>

definition toDouble :: "int \<Rightarrow> number" where
  "toDouble n =
     (let e = bit_length n - 53 in
      if e = 0 then Finite n
      else
        let q = n div 2 ^ e;
            r = n mod 2 ^ e;
            half = 2 ^ (e - 1);
            q' = (if half < r \<or> (r = half \<and> odd q) then q + 1 else q);
            v = q' * 2 ^ e
        in if 2 ^ 1024 \<le> v then PosInfinity else Finite v)"

definition negate :: "number \<Rightarrow> number" where
  "negate x = (case x of NaN \<Rightarrow> NaN | Finite n \<Rightarrow> Finite (- n)
                | PosInfinity \<Rightarrow> NegInfinity | NegInfinity \<Rightarrow> PosInfinity)"

definition isWhiteSpace :: "char \<Rightarrow> bool" where
  "isWhiteSpace c = (of_char c \<in> {9, 10, 11, 12, 13, 32, 160 :: nat})"

definition digitValue :: "char \<Rightarrow> int option" where
  "digitValue c =
     (let k = (of_char c :: int) in
      if 48 \<le> k \<and> k \<le> 57 then Some (k - 48)
      else if 97 \<le> k \<and> k \<le> 122 then Some (k - 87)
      else if 65 \<le> k \<and> k \<le> 90 then Some (k - 55)
      else None)"

definition isRadixDigit :: "int \<Rightarrow> char \<Rightarrow> bool" where
  "isRadixDigit R c = (case digitValue c of None \<Rightarrow> False | Some d \<Rightarrow> d < R)"

definition mathInt :: "int \<Rightarrow> string \<Rightarrow> int" where
  "mathInt R Z = foldl (\<lambda>a c. a * R + (case digitValue c of None \<Rightarrow> 0 | Some d \<Rightarrow> d)) 0 Z"

text \<open>
  \<^verbatim>\<open>parseInt(string)\<close> with no radix argument: skip leading white space, read a
  sign, read the prefix \<^verbatim>\<open>0x\<close> or \<^verbatim>\<open>0X\<close> (radix 16, otherwise 10), take the longest
  run of digits; no digit is \<^verbatim>\<open>NaN\<close>.
\<close>

definition parseInt :: "string option \<Rightarrow> number" where
  "parseInt v =
     (let S = dropWhile isWhiteSpace (ToString v);
          neg = (take 1 S = ''-'');
          S1 = (if take 1 S = ''+'' \<or> take 1 S = ''-'' then drop 1 S else S);
          hex = (take 2 S1 = ''0x'' \<or> take 2 S1 = ''0X'');
          R = (if hex then 16 else 10);
          S2 = (if hex then drop 2 S1 else S1);
          Z = takeWhile (isRadixDigit R) S2
      in if Z = [] then NaN
         else if neg then negate (toDouble (mathInt R Z))
         else toDouble (mathInt R Z))"

section \<open>What the runtime and the driver decide\<close>

text \<open>
  Four library behaviours the handlers rely on are not fixed by \<^verbatim>\<open>src/index.js\<close>;
  they are parameters of the model:
  \<^item> \<open>Date_parse\<close>: the time value (milliseconds since the epoch) of \<^verbatim>\<open>new Date(s)\<close>,
    \<open>None\<close> when \<^verbatim>\<open>getTime()\<close> is \<^verbatim>\<open>NaN\<close> (outside the ISO format, what a string
    denotes is left to the JavaScript engine);
  \<^item> \<open>toDateString\<close>: \<^verbatim>\<open>Date.prototype.toDateString\<close> in the server's time zone;
  \<^item> \<open>castObjectId\<close>: Mongoose's cast of a string to an \<^verbatim>\<open>ObjectId\<close>, \<open>None\<close> when
    the cast raises a \<^verbatim>\<open>CastError\<close>;
  \<^item> \<open>limitAccepted\<close>: whether the database accepts a limit that is not a
    64-bit integer (asked only for positive limits).
\<close>

type_synonym objectId = string

record platform =
  Date_parse :: "string \<Rightarrow> int option"
  toDateString :: "int \<Rightarrow> string"
  castObjectId :: "string \<Rightarrow> objectId option"
  limitAccepted :: "number \<Rightarrow> bool"

section \<open>The two collections\<close>

text \<open>
  \<^verbatim>\<open>userSchema\<close> and \<^verbatim>\<open>exerciseSchema\<close>. A stored date is its time value. The
  collections are lists in insertion order, the order an unsorted \<^verbatim>\<open>find\<close> is taken to
  return. \<open>up\<close> tells whether the database answers: when it does not, every
  operation that reaches it fails.
\<close>

record user =
  user_id :: objectId
  username :: string

record exercise =
  exercise_id :: objectId
  userId :: objectId
  description :: string
  duration :: number
  date :: int

record store =
  users :: "user list"
  exercises :: "exercise list"
  up :: bool

text \<open>
  Errors a Mongoose call rejects with: a \<^verbatim>\<open>CastError\<close> with its \<^verbatim>\<open>path\<close>, a server
  error with its \<^verbatim>\<open>code\<close> (11000 is the duplicate key error of a unique index), or a
  failure to reach the database (no \<^verbatim>\<open>code\<close>, another \<^verbatim>\<open>name\<close>).
\<close>

datatype db_error = CastError string | ServerError nat | Unavailable

definition User_findOne :: "store \<Rightarrow> string \<Rightarrow> db_error + user option" where
  "User_findOne s name =
     (if \<not> up s then Inl Unavailable
      else Inr (find (\<lambda>u. username u = name) (users s)))"

definition User_findById :: "platform \<Rightarrow> store \<Rightarrow> string \<Rightarrow> db_error + user option" where
  "User_findById p s i =
     (case castObjectId p i of
        None \<Rightarrow> Inl (CastError ''_id'')
      | Some oid \<Rightarrow>
          if \<not> up s then Inl Unavailable
          else Inr (find (\<lambda>u. user_id u = oid) (users s)))"

definition User_find :: "store \<Rightarrow> db_error + user list" where
  "User_find s = (if \<not> up s then Inl Unavailable else Inr (users s))"

text \<open>
  \<^verbatim>\<open>save\<close> of a new document is an insert. \<^verbatim>\<open>_id\<close> is unique in every collection and
  \<^verbatim>\<open>username\<close> is declared \<^verbatim>\<open>unique: true\<close>: an insert that repeats either is
  rejected with code 11000.
\<close>

definition User_save :: "store \<Rightarrow> user \<Rightarrow> db_error + (user \<times> store)" where
  "User_save s u =
     (if \<not> up s then Inl Unavailable
      else if \<exists>v \<in> set (users s). user_id v = user_id u \<or> username v = username u
      then Inl (ServerError 11000)
      else Inr (u, s\<lparr>users := users s @ [u]\<rparr>))"

definition Exercise_save :: "store \<Rightarrow> exercise \<Rightarrow> db_error + (exercise \<times> store)" where
  "Exercise_save s e =
     (if \<not> up s then Inl Unavailable
      else if \<exists>x \<in> set (exercises s). exercise_id x = exercise_id e
      then Inl (ServerError 11000)
      else Inr (e, s\<lparr>exercises := exercises s @ [e]\<rparr>))"

text \<open>
  The query the log handler builds: \<^verbatim>\<open>find({userId})\<close>, then \<^verbatim>\<open>where('date', {$gte, $lte})\<close>
  and \<^verbatim>\<open>limit\<close> when the handler adds them.
\<close>

record query =
  q_userId :: string
  q_gte :: "int option"
  q_lte :: "int option"
  q_limit :: "number option"

definition matches :: "objectId \<Rightarrow> query \<Rightarrow> exercise \<Rightarrow> bool" where
  "matches oid q e =
     (userId e = oid
      \<and> (case q_gte q of None \<Rightarrow> True | Some lo \<Rightarrow> lo \<le> date e)
      \<and> (case q_lte q of None \<Rightarrow> True | Some hi \<Rightarrow> date e \<le> hi))"

text \<open>
  \<^verbatim>\<open>limit(n)\<close> keeps the first \<open>n\<close> documents. A limit that fits 64 bits is always
  taken; for any other (a larger double, an infinity) the platform says whether
  the database takes it or rejects the query. An infinite limit that is taken
  cuts nothing.
\<close>

definition applyLimit :: "number option \<Rightarrow> 'a list \<Rightarrow> 'a list" where
  "applyLimit l xs = (case l of Some (Finite n) \<Rightarrow> take (nat n) xs | _ \<Rightarrow> xs)"

definition limitIsInt64 :: "number \<Rightarrow> bool" where
  "limitIsInt64 l = (case l of Finite n \<Rightarrow> n < 2 ^ 63 | _ \<Rightarrow> False)"

definition Exercise_find :: "platform \<Rightarrow> store \<Rightarrow> query \<Rightarrow> db_error + exercise list" where
  "Exercise_find p s q =
     (case castObjectId p (q_userId q) of
        None \<Rightarrow> Inl (CastError ''userId'')
      | Some oid \<Rightarrow>
          if \<not> up s then Inl Unavailable
          else if (case q_limit q of None \<Rightarrow> False
                   | Some l \<Rightarrow> \<not> limitIsInt64 l \<and> \<not> limitAccepted p l)
          then Inl (ServerError 2)
          else Inr (applyLimit (q_limit q) (filter (matches oid q) (exercises s))))"

section \<open>Requests, responses and the handlers\<close>

text \<open>
  What surrounds one request: the clock (\<^verbatim>\<open>new Date()\<close>), the identifier Mongoose
  gives the document the handler creates, and what other requests do to the
  database between the handler's two awaited operations.
\<close>

record env =
  now :: int
  newId :: objectId
  between :: "store \<Rightarrow> store"

text \<open>
  The JSON bodies, one record for each shape the handlers send; the \<open>_id\<close> fields
  stand for the key \<^verbatim>\<open>_id\<close>. An outcome is the response together with the database
  the handler leaves and the model operations it invoked, in order.
\<close>

record user_json =
  uj_username :: string
  uj_id :: objectId

record exercise_json =
  ej_username :: string
  ej_description :: string
  ej_duration :: number
  ej_date :: string
  ej_id :: objectId

record log_entry =
  le_description :: string
  le_duration :: number
  le_date :: string

record log_json =
  lj_username :: string
  lj_count :: nat
  lj_id :: objectId
  lj_log :: "log_entry list"

datatype body =
    Error string
  | UserBody user_json
  | UsersBody "user_json list"
  | ExerciseBody exercise_json
  | LogBody log_json

record response =
  status :: nat
  json :: body

datatype db_call =
  FindOneUser | SaveUser | FindUsers | FindUserById | SaveExercise | FindExercises

record outcome =
  res :: response
  db :: store
  calls :: "db_call list"

definition reply :: "nat \<Rightarrow> body \<Rightarrow> store \<Rightarrow> db_call list \<Rightarrow> outcome" where
  "reply st b s cs = \<lparr>res = \<lparr>status = st, json = b\<rparr>, db = s, calls = cs\<rparr>"

subsection \<open>POST /api/users\<close>

definition users_catch :: "db_error \<Rightarrow> store \<Rightarrow> db_call list \<Rightarrow> outcome" where
  "users_catch err s cs =
     (if err = ServerError 11000 then reply 400 (Error ''Username already taken'') s cs
      else reply 500 (Error ''Could not create user'') s cs)"

definition post_users :: "env \<Rightarrow> string option \<Rightarrow> store \<Rightarrow> outcome" where
  "post_users ev name s =
     (if \<not> truthy name then reply 400 (Error ''Username is required'') s []
      else
        case User_findOne s (ToString name) of
          Inl err \<Rightarrow> users_catch err s [FindOneUser]
        | Inr (Some foundUser) \<Rightarrow>
            reply 200 (UserBody \<lparr>uj_username = username foundUser, uj_id = user_id foundUser\<rparr>)
              s [FindOneUser]
        | Inr None \<Rightarrow>
            (let s1 = between ev s in
             case User_save s1 \<lparr>user_id = newId ev, username = ToString name\<rparr> of
               Inl err \<Rightarrow> users_catch err s1 [FindOneUser, SaveUser]
             | Inr (savedUser, s2) \<Rightarrow>
                 reply 200 (UserBody \<lparr>uj_username = username savedUser, uj_id = user_id savedUser\<rparr>)
                   s2 [FindOneUser, SaveUser]))"

subsection \<open>GET /api/users\<close>

definition get_users :: "store \<Rightarrow> outcome" where
  "get_users s =
     (case User_find s of
        Inl err \<Rightarrow> reply 500 (Error ''Could not retrieve users'') s [FindUsers]
      | Inr us \<Rightarrow>
          reply 200 (UsersBody (map (\<lambda>u. \<lparr>uj_username = username u, uj_id = user_id u\<rparr>) us))
            s [FindUsers])"

subsection \<open>POST /api/users/:_id/exercises\<close>

record exercise_request =
  xr_id :: string
  xr_description :: "string option"
  xr_duration :: "string option"
  xr_date :: "string option"

definition exercises_catch :: "db_error \<Rightarrow> store \<Rightarrow> db_call list \<Rightarrow> outcome" where
  "exercises_catch err s cs =
     (if err = CastError ''_id'' then reply 400 (Error ''Invalid user ID format'') s cs
      else reply 500 (Error ''Could not add exercise'') s cs)"

text \<open>
  The date the handler resolves before it touches the database: the clock when
  \<^verbatim>\<open>date\<close> is falsy, the parsed date otherwise, \<open>None\<close> when that is invalid.
\<close>

definition exerciseDate :: "platform \<Rightarrow> env \<Rightarrow> string option \<Rightarrow> int option" where
  "exerciseDate p ev d = (if \<not> truthy d then Some (now ev) else Date_parse p (ToString d))"

definition post_exercises :: "platform \<Rightarrow> env \<Rightarrow> exercise_request \<Rightarrow> store \<Rightarrow> outcome" where
  "post_exercises p ev rq s =
     (if \<not> truthy (xr_description rq) \<or> \<not> truthy (xr_duration rq)
      then reply 400 (Error ''Description and duration are required'') s []
      else
        let durationNum = parseInt (xr_duration rq) in
        if isNaN durationNum then reply 400 (Error ''Duration must be a number'') s []
        else
          case exerciseDate p ev (xr_date rq) of
            None \<Rightarrow> reply 400 (Error ''Invalid date format'') s []
          | Some d \<Rightarrow>
              (case User_findById p s (xr_id rq) of
                 Inl err \<Rightarrow> exercises_catch err s [FindUserById]
               | Inr None \<Rightarrow> reply 404 (Error ''User not found'') s [FindUserById]
               | Inr (Some usr) \<Rightarrow>
                   (let s1 = between ev s in
                    case Exercise_save s1
                           \<lparr>exercise_id = newId ev, userId = user_id usr,
                            description = ToString (xr_description rq),
                            duration = durationNum, date = d\<rparr> of
                      Inl err \<Rightarrow> exercises_catch err s1 [FindUserById, SaveExercise]
                    | Inr (savedExercise, s2) \<Rightarrow>
                        reply 200
                          (ExerciseBody
                             \<lparr>ej_username = username usr,
                              ej_description = description savedExercise,
                              ej_duration = duration savedExercise,
                              ej_date = toDateString p (date savedExercise),
                              ej_id = user_id usr\<rparr>)
                          s2 [FindUserById, SaveExercise])))"

subsection \<open>GET /api/users/:_id/logs\<close>

record logs_request =
  lr_id :: string
  lr_from :: "string option"
  lr_to :: "string option"
  lr_limit :: "string option"

definition logs_catch :: "db_error \<Rightarrow> store \<Rightarrow> db_call list \<Rightarrow> outcome" where
  "logs_catch err s cs =
     (if err = CastError ''_id'' then reply 400 (Error ''Invalid user ID format'') s cs
      else reply 500 (Error ''Could not retrieve logs'') s cs)"

definition limitOf :: "string option \<Rightarrow> number option" where
  "limitOf l =
     (let limitNum = parseInt l in
      if \<not> isNaN limitNum \<and> positive limitNum then Some limitNum else None)"

definition logEntry :: "platform \<Rightarrow> exercise \<Rightarrow> log_entry" where
  "logEntry p ex =
     \<lparr>le_description = description ex, le_duration = duration ex,
      le_date = toDateString p (date ex)\<rparr>"

text \<open>
  One bound of the date filter: a falsy parameter adds none, a parameter that
  parses adds its time value, any other makes the handler answer 400.
\<close>

datatype bound = NoBound | Bound int | InvalidBound

definition dateBound :: "platform \<Rightarrow> string option \<Rightarrow> bound" where
  "dateBound p v =
     (if truthy v
      then (case Date_parse p (ToString v) of None \<Rightarrow> InvalidBound | Some t \<Rightarrow> Bound t)
      else NoBound)"

definition boundValue :: "bound \<Rightarrow> int option" where
  "boundValue b = (case b of Bound t \<Rightarrow> Some t | _ \<Rightarrow> None)"

definition get_logs :: "platform \<Rightarrow> env \<Rightarrow> logs_request \<Rightarrow> store \<Rightarrow> outcome" where
  "get_logs p ev rq s =
     (case User_findById p s (lr_id rq) of
        Inl err \<Rightarrow> logs_catch err s [FindUserById]
      | Inr None \<Rightarrow> reply 404 (Error ''User not found'') s [FindUserById]
      | Inr (Some usr) \<Rightarrow>
          (let fromDate = dateBound p (lr_from rq) in
           if fromDate = InvalidBound
           then reply 400 (Error ''Invalid 'from' date format'') s [FindUserById]
           else
             let toDate = dateBound p (lr_to rq) in
             if toDate = InvalidBound
             then reply 400 (Error ''Invalid 'to' date format'') s [FindUserById]
             else
               let q = \<lparr>q_userId = lr_id rq, q_gte = boundValue fromDate,
                        q_lte = boundValue toDate, q_limit = limitOf (lr_limit rq)\<rparr>;
                   s1 = between ev s
               in case Exercise_find p s1 q of
                    Inl err \<Rightarrow> logs_catch err s1 [FindUserById, FindExercises]
                  | Inr exs \<Rightarrow>
                      (let log = map (logEntry p) exs in
                       reply 200
                         (LogBody \<lparr>lj_username = username usr, lj_count = length log,
                                   lj_id = user_id usr, lj_log = log\<rparr>)
                         s1 [FindUserById, FindExercises])))"

section \<open>A concrete runtime\<close>

text \<open>
  One instance of the parameters, used to run the handlers on concrete requests: a
  server in UTC, the date-only form \<^verbatim>\<open>YYYY-MM-DD\<close> of the ECMAScript date-time
  format (midnight UTC of that day; any other string is taken as invalid),
  \<^verbatim>\<open>toDateString\<close> as \<^verbatim>\<open>Www Mmm DD YYYY\<close>, 24 hexadecimal digits as the only
  strings that cast to an \<^verbatim>\<open>ObjectId\<close>, and a database that refuses a limit beyond
  64 bits.
\<close>

definition msPerDay :: int where
  "msPerDay = 86400000"

definition daysFromCivil :: "int \<Rightarrow> int \<Rightarrow> int \<Rightarrow> int" where
  "daysFromCivil y m d =
     (let y1 = (if m \<le> 2 then y - 1 else y);
          era = y1 div 400;
          yoe = y1 - era * 400;
          doy = (153 * (if 2 < m then m - 3 else m + 9) + 2) div 5 + d - 1;
          doe = yoe * 365 + yoe div 4 - yoe div 100 + doy
      in era * 146097 + doe - 719468)"

definition civilFromDays :: "int \<Rightarrow> int \<times> int \<times> int" where
  "civilFromDays z =
     (let z1 = z + 719468;
          era = z1 div 146097;
          doe = z1 - era * 146097;
          yoe = (doe - doe div 1460 + doe div 36524 - doe div 146096) div 365;
          doy = doe - (365 * yoe + yoe div 4 - yoe div 100);
          mp = (5 * doy + 2) div 153;
          d = doy - (153 * mp + 2) div 5 + 1;
          m = (if mp < 10 then mp + 3 else mp - 9);
          y = yoe + era * 400 + (if m \<le> 2 then 1 else 0)
      in (y, m, d))"

definition daysInMonth :: "int \<Rightarrow> int \<Rightarrow> int" where
  "daysInMonth y m =
     (if m = 2 then (if y mod 4 = 0 \<and> (y mod 100 \<noteq> 0 \<or> y mod 400 = 0) then 29 else 28)
      else if m \<in> {4, 6, 9, 11} then 30 else 31)"

definition parseISODate :: "string \<Rightarrow> int option" where
  "parseISODate s =
     (if length s = 10 \<and> take 1 (drop 4 s) = ''-'' \<and> take 1 (drop 7 s) = ''-''
         \<and> list_all (isRadixDigit 10) (take 4 s @ take 2 (drop 5 s) @ drop 8 s)
      then
        let y = mathInt 10 (take 4 s);
            m = mathInt 10 (take 2 (drop 5 s));
            d = mathInt 10 (drop 8 s)
        in if 1 \<le> m \<and> m \<le> 12 \<and> 1 \<le> d \<and> d \<le> daysInMonth y m
           then Some (daysFromCivil y m d * msPerDay) else None
      else None)"

function decimal :: "int \<Rightarrow> string" where
  "decimal n =
     (if n < 10 then [''0123456789'' ! nat n]
      else decimal (n div 10) @ [''0123456789'' ! nat (n mod 10)])"
  by pat_completeness auto
termination
  by (relation "measure nat") auto

declare decimal.simps [simp del]

definition zeroPadded :: "nat \<Rightarrow> int \<Rightarrow> string" where
  "zeroPadded w n = (let ds = decimal n in replicate (w - length ds) CHR ''0'' @ ds)"

definition dayName :: "int \<Rightarrow> string" where
  "dayName wd = [''Sun'', ''Mon'', ''Tue'', ''Wed'', ''Thu'', ''Fri'', ''Sat''] ! nat wd"

definition monthName :: "int \<Rightarrow> string" where
  "monthName m =
     [''Jan'', ''Feb'', ''Mar'', ''Apr'', ''May'', ''Jun'',
      ''Jul'', ''Aug'', ''Sep'', ''Oct'', ''Nov'', ''Dec''] ! nat (m - 1)"

definition utcDateString :: "int \<Rightarrow> string" where
  "utcDateString t =
     (let z = t div msPerDay in
      case civilFromDays z of
        (y, m, d) \<Rightarrow>
          dayName ((z + 4) mod 7) @ '' '' @ monthName m @ '' '' @ zeroPadded 2 d @ '' ''
          @ (if y < 0 then ''-'' else []) @ zeroPadded 4 (abs y))"

definition hexObjectId :: "string \<Rightarrow> objectId option" where
  "hexObjectId i =
     (if length i = 24 \<and> list_all (isRadixDigit 16) i then Some i else None)"

definition utcPlatform :: platform where
  "utcPlatform =
     \<lparr>Date_parse = parseISODate, toDateString = utcDateString,
      castObjectId = hexObjectId, limitAccepted = (\<lambda>l. False)\<rparr>"

section \<open>What the specification says, as predicates\<close>

text \<open>
  The request body of the exercise route passes the handler's validation: both
  required fields are truthy, the duration parses, and the date is absent, empty or
  parses.
\<close>

definition validBody :: "platform \<Rightarrow> exercise_request \<Rightarrow> bool" where
  "validBody p rq =
     (truthy (xr_description rq) \<and> truthy (xr_duration rq)
      \<and> parseInt (xr_duration rq) \<noteq> NaN
      \<and> (case xr_date rq of None \<Rightarrow> True
          | Some ds \<Rightarrow> ds = [] \<or> Date_parse p ds \<noteq> None))"

text \<open>The entry of the log that an exercise response announces.\<close>

definition entryOf :: "exercise_json \<Rightarrow> log_entry" where
  "entryOf ej =
     \<lparr>le_description = ej_description ej, le_duration = ej_duration ej,
      le_date = ej_date ej\<rparr>"

section \<open>Example requests\<close>

text \<open>
  A database with one user, and a request environment whose clock reads
  2023-01-31T12:00:00Z and in which no other request interferes.
\<close>

definition aliceId :: objectId where
  "aliceId = ''5f8d0d55b54764421b7156c3''"

definition alice :: user where
  "alice = \<lparr>user_id = aliceId, username = ''alice''\<rparr>"

definition emptyStore :: store where
  "emptyStore = \<lparr>users = [], exercises = [], up = True\<rparr>"

definition aliceStore :: store where
  "aliceStore = \<lparr>users = [alice], exercises = [], up = True\<rparr>"

definition noonEnv :: env where
  "noonEnv = \<lparr>now = 1675166400000, newId = ''64b0c0ffee0000000000a001'', between = id\<rparr>"

definition laterEnv :: env where
  "laterEnv = \<lparr>now = 1675170000000, newId = ''64b0c0ffee0000000000a002'', between = id\<rparr>"

text \<open>Another request creates the user \<^verbatim>\<open>bob\<close> between the handler's lookup and its insert.\<close>

definition raceEnv :: env where
  "raceEnv =
     \<lparr>now = 1675166400000, newId = ''64b0c0ffee0000000000a003'',
      between = (\<lambda>s. s\<lparr>users := users s @
                   [\<lparr>user_id = ''64b0c0ffee0000000000a004'', username = ''bob''\<rparr>]\<rparr>)\<rparr>"

definition runRequest :: exercise_request where
  "runRequest =
     \<lparr>xr_id = aliceId, xr_description = Some ''run'', xr_duration = Some ''45'',
      xr_date = None\<rparr>"

definition datedRequest :: exercise_request where
  "datedRequest =
     \<lparr>xr_id = aliceId, xr_description = Some ''swim'', xr_duration = Some ''30'',
      xr_date = Some ''2023-01-15''\<rparr>"

definition emptyDateRequest :: exercise_request where
  "emptyDateRequest = runRequest\<lparr>xr_date := Some []\<rparr>"

text \<open>A duration of 309 digits: an integer numeral beyond the range of a double.\<close>

definition overflowRequest :: exercise_request where
  "overflowRequest = runRequest\<lparr>xr_duration := Some (replicate 309 CHR ''9'')\<rparr>"

text \<open>The database after \<open>runRequest\<close>, and after \<open>datedRequest\<close> on top of it.\<close>

definition oneStore :: store where
  "oneStore = db (post_exercises utcPlatform noonEnv runRequest aliceStore)"

definition twoStore :: store where
  "twoStore = db (post_exercises utcPlatform laterEnv datedRequest oneStore)"

definition allLogs :: logs_request where
  "allLogs = \<lparr>lr_id = aliceId, lr_from = None, lr_to = None, lr_limit = None\<rparr>"


definition limitOne :: logs_request where
  "limitOne = allLogs\<lparr>lr_limit := Some ''1''\<rparr>"

definition badFrom :: logs_request where
  "badFrom = allLogs\<lparr>lr_from := Some ''abc''\<rparr>"

section \<open>How the handlers succeed\<close>

lemma find_SomeD: "find P xs = Some x \<Longrightarrow> x \<in> set xs \<and> P x"
  by (induction xs) (auto split: if_splits)

lemma find_None_iff: "find P xs = None \<longleftrightarrow> (\<forall>x \<in> set xs. \<not> P x)"
  by (induction xs) auto

lemma find_unique:
  "x \<in> set xs \<Longrightarrow> distinct (map f xs) \<Longrightarrow> find (\<lambda>y. f y = f x) xs = Some x"
  by (induction xs) (auto simp: image_iff)

lemma parseInt_empty: "parseInt (Some []) = NaN"
  by (simp add: parseInt_def ToString_def)

lemma parseInt_undefined: "parseInt None = NaN"
  by (simp add: parseInt_def ToString_def isRadixDigit_def digitValue_def isWhiteSpace_def)

lemma applyLimit_length: "length (applyLimit (Some (Finite n)) xs) \<le> nat n"
  by (simp add: applyLimit_def)

lemma applyLimit_subset: "set (applyLimit l xs) \<subseteq> set xs"
  by (auto simp: applyLimit_def split: option.splits number.splits dest: in_set_takeD)

lemma limitOf_Finite:
  "0 < n \<Longrightarrow> parseInt l = Finite n \<Longrightarrow> limitOf l = Some (Finite n)"
  by (simp add: limitOf_def isNaN_def positive_def)


lemma limitOf_None: "limitOf None = None"
  by (simp add: limitOf_def parseInt_def ToString_def isRadixDigit_def digitValue_def isWhiteSpace_def isNaN_def)

text \<open>Every answer 200 of the exercise route is of this form.\<close>

lemma post_exercises_ok:
  assumes "status (res (post_exercises p ev rq s)) = 200"
  shows "\<exists>oid usr d.
           truthy (xr_description rq) \<and> truthy (xr_duration rq)
         \<and> parseInt (xr_duration rq) \<noteq> NaN
         \<and> exerciseDate p ev (xr_date rq) = Some d
         \<and> castObjectId p (xr_id rq) = Some oid \<and> up s
         \<and> find (\<lambda>u. user_id u = oid) (users s) = Some usr
         \<and> up (between ev s)
         \<and> (\<forall>x \<in> set (exercises (between ev s)). exercise_id x \<noteq> newId ev)
         \<and> post_exercises p ev rq s =
             reply 200
               (ExerciseBody
                  \<lparr>ej_username = username usr,
                   ej_description = ToString (xr_description rq),
                   ej_duration = parseInt (xr_duration rq),
                   ej_date = toDateString p d,
                   ej_id = user_id usr\<rparr>)
               ((between ev s)
                  \<lparr>exercises := exercises (between ev s) @
                     [\<lparr>exercise_id = newId ev, userId = user_id usr,
                       description = ToString (xr_description rq),
                       duration = parseInt (xr_duration rq), date = d\<rparr>]\<rparr>)
               [FindUserById, SaveExercise]"
  using assms
  by (auto simp: post_exercises_def reply_def exercises_catch_def User_findById_def
        Exercise_save_def isNaN_def Let_def
      split: if_splits option.splits sum.splits)

text \<open>Every answer 200 of the log route is of this form.\<close>

lemma get_logs_ok:
  assumes "status (res (get_logs p ev rq s)) = 200"
  shows "\<exists>oid usr.
           castObjectId p (lr_id rq) = Some oid \<and> up s
         \<and> find (\<lambda>u. user_id u = oid) (users s) = Some usr
         \<and> dateBound p (lr_from rq) \<noteq> InvalidBound
         \<and> dateBound p (lr_to rq) \<noteq> InvalidBound
         \<and> up (between ev s)
         \<and> get_logs p ev rq s =
             (let exs = applyLimit (limitOf (lr_limit rq))
                          (filter (matches oid
                             \<lparr>q_userId = lr_id rq, q_gte = boundValue (dateBound p (lr_from rq)),
                              q_lte = boundValue (dateBound p (lr_to rq)),
                              q_limit = limitOf (lr_limit rq)\<rparr>)
                            (exercises (between ev s)))
              in reply 200
                (LogBody \<lparr>lj_username = username usr, lj_count = length exs,
                          lj_id = user_id usr, lj_log = map (logEntry p) exs\<rparr>)
                (between ev s) [FindUserById, FindExercises])"
  using assms
  by (auto simp: get_logs_def reply_def logs_catch_def User_findById_def
        Exercise_find_def Let_def
      split: if_splits option.splits sum.splits)

text \<open>The checks of the exercise route, one by one.\<close>

lemma post_exercises_required:
  "\<not> truthy (xr_description rq) \<or> \<not> truthy (xr_duration rq) \<Longrightarrow>
   post_exercises p ev rq s = reply 400 (Error ''Description and duration are required'') s []"
  by (auto simp: post_exercises_def)

lemma post_exercises_duration:
  "truthy (xr_description rq) \<Longrightarrow> truthy (xr_duration rq) \<Longrightarrow>
   parseInt (xr_duration rq) = NaN \<Longrightarrow>
   post_exercises p ev rq s = reply 400 (Error ''Duration must be a number'') s []"
  by (simp add: post_exercises_def isNaN_def)

lemma post_exercises_date:
  "truthy (xr_description rq) \<Longrightarrow> truthy (xr_duration rq) \<Longrightarrow>
   parseInt (xr_duration rq) \<noteq> NaN \<Longrightarrow>
   xr_date rq = Some ds \<Longrightarrow> ds \<noteq> [] \<Longrightarrow> Date_parse p ds = None \<Longrightarrow>
   post_exercises p ev rq s = reply 400 (Error ''Invalid date format'') s []"
  by (simp add: post_exercises_def isNaN_def exerciseDate_def truthy_def ToString_def)

lemma post_exercises_cast:
  "validBody p rq \<Longrightarrow> castObjectId p (xr_id rq) = None \<Longrightarrow>
   post_exercises p ev rq s = reply 400 (Error ''Invalid user ID format'') s [FindUserById]"
  by (auto simp: post_exercises_def validBody_def User_findById_def exercises_catch_def
        isNaN_def exerciseDate_def truthy_def ToString_def Let_def
      split: option.splits)

lemma invalid_body_400:
  "\<not> validBody p rq \<Longrightarrow>
   \<exists>msg. post_exercises p ev rq s = reply 400 (Error msg) s []
        \<and> post_exercises p ev rq s' = reply 400 (Error msg) s' []"
  by (auto simp: validBody_def post_exercises_def isNaN_def exerciseDate_def truthy_def
        ToString_def Let_def split: option.splits)

lemma post_exercises_404:
  "status (res (post_exercises p ev rq s)) = 404 \<longleftrightarrow>
     validBody p rq \<and> up s
     \<and> (\<exists>oid. castObjectId p (xr_id rq) = Some oid \<and> find (\<lambda>u. user_id u = oid) (users s) = None)"
  by (auto simp: post_exercises_def validBody_def reply_def exercises_catch_def
        User_findById_def Exercise_save_def isNaN_def exerciseDate_def truthy_def
        ToString_def Let_def
      split: if_splits option.splits sum.splits)

text \<open>
  The user route keeps usernames distinct, and asking twice for the same username
  gives the same answer the second time, with no further insert.
\<close>

lemma find_append_new:
  "\<forall>x \<in> set xs. \<not> P x \<Longrightarrow> P y \<Longrightarrow> find P (xs @ [y]) = Some y"
  by (induction xs) auto

lemma User_save_InrD:
  "User_save s u = Inr (v, s') \<Longrightarrow>
   v = u \<and> s' = s\<lparr>users := users s @ [u]\<rparr> \<and> up s
   \<and> (\<forall>w \<in> set (users s). username w \<noteq> username u)"
  by (auto simp: User_save_def split: if_splits)

lemma users_catch_db: "db (users_catch err s cs) = s"
  by (simp add: users_catch_def reply_def)

lemma users_catch_status: "status (res (users_catch err s cs)) \<noteq> 200"
  by (simp add: users_catch_def reply_def)

lemma post_users_keeps_distinct:
  assumes d: "distinct (map username (users s))"
    and d1: "distinct (map username (users (between ev s)))"
  shows "distinct (map username (users (db (post_users ev name s))))"
proof (cases "truthy name")
  case False
  then show ?thesis
    using d by (simp add: post_users_def reply_def)
next
  case True
  show ?thesis
  proof (cases "User_findOne s (ToString name)")
    case (Inl err)
    then show ?thesis
      using True d by (simp add: post_users_def users_catch_db)
  next
    case (Inr found)
    show ?thesis
    proof (cases found)
      case (Some usr)
      then show ?thesis
        using True Inr d by (simp add: post_users_def reply_def)
    next
      case None
      show ?thesis
      proof (cases "User_save (between ev s) \<lparr>user_id = newId ev, username = ToString name\<rparr>")
        case (Inl err)
        then show ?thesis
          using True Inr None d1 by (simp add: post_users_def users_catch_db)
      next
        case save: (Inr r)
        obtain v s2 where r: "r = (v, s2)"
          by (cases r)
        from User_save_InrD [OF save [unfolded r]]
        have "s2 = (between ev s)\<lparr>users := users (between ev s) @
                     [\<lparr>user_id = newId ev, username = ToString name\<rparr>]\<rparr>"
          and "\<forall>w \<in> set (users (between ev s)). username w \<noteq> ToString name"
          by simp_all
        then have "distinct (map username (users s2))"
          using d1 by (auto simp: image_iff)
        then show ?thesis
          using True Inr None save r by (simp add: post_users_def reply_def)
      qed
    qed
  qed
qed

lemma post_users_twice:
  assumes ok: "status (res (post_users ev name s)) = 200"
  shows "post_users ev' name (db (post_users ev name s)) =
           reply 200 (json (res (post_users ev name s))) (db (post_users ev name s))
             [FindOneUser]"
proof -
  have t: "truthy name"
    using ok by (auto simp: post_users_def reply_def split: if_splits)
  show ?thesis
  proof (cases "User_findOne s (ToString name)")
    case (Inl err)
    then show ?thesis
      using ok t users_catch_status by (simp add: post_users_def)
  next
    case (Inr found)
    show ?thesis
    proof (cases found)
      case (Some usr)
      then show ?thesis
        using t Inr by (simp add: post_users_def reply_def)
    next
      case None
      show ?thesis
      proof (cases "User_save (between ev s) \<lparr>user_id = newId ev, username = ToString name\<rparr>")
        case (Inl err)
        then show ?thesis
          using ok t Inr None users_catch_status by (simp add: post_users_def)
      next
        case save: (Inr r)
        obtain v s2 where r: "r = (v, s2)"
          by (cases r)
        define u where "u = \<lparr>user_id = newId ev, username = ToString name\<rparr>"
        from User_save_InrD [OF save [unfolded r]]
        have v: "v = u" and s2: "s2 = (between ev s)\<lparr>users := users (between ev s) @ [u]\<rparr>"
          and up: "up (between ev s)"
          and new: "\<forall>w \<in> set (users (between ev s)). username w \<noteq> ToString name"
          by (simp_all add: u_def)
        have out: "post_users ev name s =
                     reply 200 (UserBody \<lparr>uj_username = username u, uj_id = user_id u\<rparr>) s2
                       [FindOneUser, SaveUser]"
          using t Inr None save r v by (simp add: post_users_def u_def)
        have "find (\<lambda>w. username w = ToString name) (users (between ev s) @ [u]) = Some u"
          using new by (intro find_append_new) (simp_all add: u_def)
        then have "User_findOne s2 (ToString name) = Inr (Some u)"
          using up by (simp add: User_findOne_def s2)
        then show ?thesis
          using t unfolding out by (simp add: post_users_def reply_def)
      qed
    qed
  qed
qed

text \<open>What the exercise route answers once every check has passed.\<close>

lemma post_exercises_accepts:
  assumes desc: "xr_description rq = Some dsc" "dsc \<noteq> []"
    and dur: "parseInt (xr_duration rq) = x" "x \<noteq> NaN"
    and d: "exerciseDate p ev (xr_date rq) = Some d"
    and usr: "User_findById p s (xr_id rq) = Inr (Some usr)"
    and up: "up (between ev s)"
    and fresh: "\<forall>e \<in> set (exercises (between ev s)). exercise_id e \<noteq> newId ev"
  shows "post_exercises p ev rq s =
           reply 200
             (ExerciseBody
                \<lparr>ej_username = username usr, ej_description = dsc,
                 ej_duration = x, ej_date = toDateString p d,
                 ej_id = user_id usr\<rparr>)
             ((between ev s)
                \<lparr>exercises := exercises (between ev s) @
                   [\<lparr>exercise_id = newId ev, userId = user_id usr, description = dsc,
                     duration = x, date = d\<rparr>]\<rparr>)
             [FindUserById, SaveExercise]"
proof -
  have t1: "truthy (xr_description rq)"
    using desc by (simp add: truthy_def)
  have t2: "truthy (xr_duration rq)"
    using dur parseInt_empty parseInt_undefined
    by (cases "xr_duration rq") (auto simp: truthy_def)
  have save: "Exercise_save (between ev s)
                \<lparr>exercise_id = newId ev, userId = user_id usr, description = dsc,
                 duration = x, date = d\<rparr>
              = Inr (\<lparr>exercise_id = newId ev, userId = user_id usr, description = dsc,
                      duration = x, date = d\<rparr>,
                     (between ev s)
                       \<lparr>exercises := exercises (between ev s) @
                          [\<lparr>exercise_id = newId ev, userId = user_id usr, description = dsc,
                            duration = x, date = d\<rparr>]\<rparr>)"
    using up fresh by (simp add: Exercise_save_def)
  show ?thesis
    using t1 t2 dur d usr save desc(1)
    by (simp add: post_exercises_def isNaN_def Let_def ToString_def)
qed

lemma post_exercises_empty_date:
  "post_exercises p ev (rq\<lparr>xr_date := Some []\<rparr>) s = post_exercises p ev (rq\<lparr>xr_date := None\<rparr>) s"
  by (auto simp: post_exercises_def exerciseDate_def truthy_def Let_def
        split: sum.splits option.splits)

lemma exercises_catch_res:
  "res (exercises_catch err s cs) \<noteq> \<lparr>status = 400, json = Error ''Invalid date format''\<rparr>"
  by (simp add: exercises_catch_def reply_def)

lemma post_exercises_date_error:
  "res (post_exercises p ev rq s) = \<lparr>status = 400, json = Error ''Invalid date format''\<rparr>
   \<Longrightarrow> exerciseDate p ev (xr_date rq) = None"
  using exercises_catch_res
  by (auto simp: post_exercises_def reply_def Let_def
        split: if_splits option.splits sum.splits)


section \<open>The claims\<close>

text \<open>
  C1. A request to the exercise route with a non-empty description, a duration that
  \<^verbatim>\<open>parseInt\<close> reads as an integer, a date that is absent (or empty) or parses, and a
  path identifier that resolves to a user succeeds whenever the database accepts
  the insert. The response carries the user's username, the description, the
  duration as that integer, the date as \<^verbatim>\<open>toDateString\<close> gives it, and the user's
  id (the new exercise has the identifier \<open>newId ev\<close>); the exercise appended to the
  collection has the supplied date, or the clock's when none is supplied.
\<close>

theorem exercise_response:
  assumes desc: "xr_description rq = Some dsc" "dsc \<noteq> []"
    and dur: "parseInt (xr_duration rq) = Finite n"
    and dt: "((xr_date rq = None \<or> xr_date rq = Some []) \<and> d = now ev)
             \<or> (\<exists>ds. xr_date rq = Some ds \<and> ds \<noteq> [] \<and> Date_parse p ds = Some d)"
    and usr: "User_findById p s (xr_id rq) = Inr (Some usr)"
    and up: "up (between ev s)"
    and fresh: "\<forall>x \<in> set (exercises (between ev s)). exercise_id x \<noteq> newId ev"
  shows "post_exercises p ev rq s =
           reply 200
             (ExerciseBody
                \<lparr>ej_username = username usr, ej_description = dsc,
                 ej_duration = Finite n, ej_date = toDateString p d,
                 ej_id = user_id usr\<rparr>)
             ((between ev s)
                \<lparr>exercises := exercises (between ev s) @
                   [\<lparr>exercise_id = newId ev, userId = user_id usr, description = dsc,
                     duration = Finite n, date = d\<rparr>]\<rparr>)
             [FindUserById, SaveExercise]"
proof -
  have t1: "truthy (xr_description rq)"
    using desc by (simp add: truthy_def)
  have t2: "truthy (xr_duration rq)"
    using dur parseInt_empty parseInt_undefined
    by (cases "xr_duration rq") (auto simp: truthy_def)
  have d: "exerciseDate p ev (xr_date rq) = Some d"
    using dt by (auto simp: exerciseDate_def truthy_def ToString_def)
  have save: "Exercise_save (between ev s)
                \<lparr>exercise_id = newId ev, userId = user_id usr, description = dsc,
                 duration = Finite n, date = d\<rparr>
              = Inr (\<lparr>exercise_id = newId ev, userId = user_id usr, description = dsc,
                      duration = Finite n, date = d\<rparr>,
                     (between ev s)
                       \<lparr>exercises := exercises (between ev s) @
                          [\<lparr>exercise_id = newId ev, userId = user_id usr, description = dsc,
                            duration = Finite n, date = d\<rparr>]\<rparr>)"
    using up fresh by (simp add: Exercise_save_def)
  show ?thesis
    using t1 t2 dur d usr save desc(1)
    by (simp add: post_exercises_def isNaN_def Let_def ToString_def)
qed

theorem exercise_response_witness:
  "(xr_description runRequest = Some ''run'' \<and> ''run'' \<noteq> []
    \<and> parseInt (xr_duration runRequest) = Finite 45
    \<and> (((xr_date runRequest = None \<or> xr_date runRequest = Some [])
          \<and> 1675166400000 = now noonEnv)
        \<or> (\<exists>ds. xr_date runRequest = Some ds \<and> ds \<noteq> []
              \<and> Date_parse utcPlatform ds = Some 1675166400000))
    \<and> User_findById utcPlatform aliceStore (xr_id runRequest) = Inr (Some alice)
    \<and> up (between noonEnv aliceStore)
    \<and> exercises (between noonEnv aliceStore) = [])
   \<and> post_exercises utcPlatform noonEnv runRequest aliceStore =
       reply 200
         (ExerciseBody
            \<lparr>ej_username = username alice, ej_description = ''run'',
             ej_duration = Finite 45, ej_date = toDateString utcPlatform 1675166400000,
             ej_id = user_id alice\<rparr>)
         ((between noonEnv aliceStore)
            \<lparr>exercises := exercises (between noonEnv aliceStore) @
               [\<lparr>exercise_id = newId noonEnv, userId = user_id alice, description = ''run'',
                 duration = Finite 45, date = 1675166400000\<rparr>]\<rparr>)
         [FindUserById, SaveExercise]
   \<and> toDateString utcPlatform 1675166400000 = ''Tue Jan 31 2023''"
proof -
  have h1: "xr_description runRequest = Some ''run''"
    by (simp add: runRequest_def)
  have h2: "''run'' \<noteq> []"
    by simp
  have h3: "parseInt (xr_duration runRequest) = Finite 45"
    by code_simp
  have h4: "((xr_date runRequest = None \<or> xr_date runRequest = Some [])
              \<and> 1675166400000 = now noonEnv)
            \<or> (\<exists>ds. xr_date runRequest = Some ds \<and> ds \<noteq> []
                  \<and> Date_parse utcPlatform ds = Some 1675166400000)"
    by (simp add: runRequest_def noonEnv_def)
  have h5: "User_findById utcPlatform aliceStore (xr_id runRequest) = Inr (Some alice)"
    by code_simp
  have h6: "up (between noonEnv aliceStore)"
    by (simp add: noonEnv_def aliceStore_def)
  have h7: "\<forall>x \<in> set (exercises (between noonEnv aliceStore)). exercise_id x \<noteq> newId noonEnv"
    by (simp add: noonEnv_def aliceStore_def)
  have h8: "toDateString utcPlatform 1675166400000 = ''Tue Jan 31 2023''"
    by code_simp
  have h9: "exercises (between noonEnv aliceStore) = []"
    by (simp add: noonEnv_def aliceStore_def)
  from h1 h2 h3 h4 h5 h6 h9 exercise_response [OF h1 h2 h3 h4 h5 h6 h7] h8
  show ?thesis
    by (intro conjI)
qed

text \<open>
  C2. Every answer 200 of the log route carries the username and the id of the user
  the path identifier resolves to, a log whose entries are the description, the
  duration and the date string of stored exercises, a count equal to the length
  of that returned log, and, when \<^verbatim>\<open>limit\<close> is a positive integer, at most that many
  entries.
\<close>

theorem logs_response:
  assumes "status (res (get_logs p ev rq s)) = 200"
  shows "\<exists>usr lj.
           User_findById p s (lr_id rq) = Inr (Some usr)
         \<and> json (res (get_logs p ev rq s)) = LogBody lj
         \<and> lj_username lj = username usr \<and> lj_id lj = user_id usr
         \<and> lj_count lj = length (lj_log lj)
         \<and> (\<forall>le \<in> set (lj_log lj). \<exists>ex \<in> set (exercises (between ev s)).
               userId ex = user_id usr
             \<and> le = \<lparr>le_description = description ex, le_duration = duration ex,
                      le_date = toDateString p (date ex)\<rparr>)
         \<and> (\<forall>n. 0 < n \<and> parseInt (lr_limit rq) = Finite n \<longrightarrow> length (lj_log lj) \<le> nat n)"
proof -
  from get_logs_ok [OF assms] obtain oid usr where
    cast: "castObjectId p (lr_id rq) = Some oid" and up: "up s"
    and usr: "find (\<lambda>u. user_id u = oid) (users s) = Some usr"
    and out: "get_logs p ev rq s =
       (let exs = applyLimit (limitOf (lr_limit rq))
                    (filter (matches oid
                       \<lparr>q_userId = lr_id rq, q_gte = boundValue (dateBound p (lr_from rq)),
                        q_lte = boundValue (dateBound p (lr_to rq)),
                        q_limit = limitOf (lr_limit rq)\<rparr>)
                      (exercises (between ev s)))
        in reply 200
          (LogBody \<lparr>lj_username = username usr, lj_count = length exs,
                    lj_id = user_id usr, lj_log = map (logEntry p) exs\<rparr>)
          (between ev s) [FindUserById, FindExercises])"
    by blast
  define q where "q = \<lparr>q_userId = lr_id rq, q_gte = boundValue (dateBound p (lr_from rq)),
                        q_lte = boundValue (dateBound p (lr_to rq)),
                        q_limit = limitOf (lr_limit rq)\<rparr>"
  define exs where "exs = applyLimit (limitOf (lr_limit rq))
                            (filter (matches oid q) (exercises (between ev s)))"
  define lj where "lj = \<lparr>lj_username = username usr, lj_count = length exs,
                          lj_id = user_id usr, lj_log = map (logEntry p) exs\<rparr>"
  have oid: "user_id usr = oid"
    using find_SomeD [OF usr] by simp
  have lookup: "User_findById p s (lr_id rq) = Inr (Some usr)"
    using cast up usr by (simp add: User_findById_def)
  have body: "json (res (get_logs p ev rq s)) = LogBody lj"
    using out by (simp add: Let_def reply_def lj_def exs_def q_def)
  have sub: "set exs \<subseteq> {ex \<in> set (exercises (between ev s)). userId ex = oid}"
    using applyLimit_subset [of "limitOf (lr_limit rq)"
        "filter (matches oid q) (exercises (between ev s))"]
    by (auto simp: exs_def matches_def)
  have entries: "\<forall>le \<in> set (lj_log lj). \<exists>ex \<in> set (exercises (between ev s)).
               userId ex = user_id usr
             \<and> le = \<lparr>le_description = description ex, le_duration = duration ex,
                      le_date = toDateString p (date ex)\<rparr>"
    using sub by (auto simp: lj_def logEntry_def oid)
  have cap: "\<forall>n. 0 < n \<and> parseInt (lr_limit rq) = Finite n \<longrightarrow> length (lj_log lj) \<le> nat n"
    by (auto simp: lj_def exs_def limitOf_Finite applyLimit_length)
  have "lj_username lj = username usr \<and> lj_id lj = user_id usr
        \<and> lj_count lj = length (lj_log lj)"
    by (simp add: lj_def)
  with lookup body entries cap show ?thesis
    by blast
qed

theorem logs_response_witness:
  "status (res (get_logs utcPlatform noonEnv limitOne twoStore)) = 200
   \<and> (\<exists>usr lj.
           User_findById utcPlatform twoStore (lr_id limitOne) = Inr (Some usr)
         \<and> json (res (get_logs utcPlatform noonEnv limitOne twoStore)) = LogBody lj
         \<and> lj_username lj = username usr \<and> lj_id lj = user_id usr
         \<and> lj_count lj = length (lj_log lj)
         \<and> (\<forall>le \<in> set (lj_log lj). \<exists>ex \<in> set (exercises (between noonEnv twoStore)).
               userId ex = user_id usr
             \<and> le = \<lparr>le_description = description ex, le_duration = duration ex,
                      le_date = toDateString utcPlatform (date ex)\<rparr>)
         \<and> (\<forall>n. 0 < n \<and> parseInt (lr_limit limitOne) = Finite n
                \<longrightarrow> length (lj_log lj) \<le> nat n))
   \<and> parseInt (lr_limit limitOne) = Finite 1
   \<and> length (exercises twoStore) = 2
   \<and> json (res (get_logs utcPlatform noonEnv limitOne twoStore)) =
       LogBody \<lparr>lj_username = ''alice'', lj_count = 1, lj_id = aliceId,
                lj_log = [\<lparr>le_description = ''run'', le_duration = Finite 45,
                           le_date = ''Tue Jan 31 2023''\<rparr>]\<rparr>"
proof -
  have ok: "status (res (get_logs utcPlatform noonEnv limitOne twoStore)) = 200"
    by code_simp
  have lim: "parseInt (lr_limit limitOne) = Finite 1"
    by code_simp
  have two: "length (exercises twoStore) = 2"
    by code_simp
  have body: "json (res (get_logs utcPlatform noonEnv limitOne twoStore)) =
       LogBody \<lparr>lj_username = ''alice'', lj_count = 1, lj_id = aliceId,
                lj_log = [\<lparr>le_description = ''run'', le_duration = Finite 45,
                           le_date = ''Tue Jan 31 2023''\<rparr>]\<rparr>"
    by code_simp
  from ok logs_response [OF ok] lim two body show ?thesis
    by (intro conjI)
qed




text \<open>
  C4. The claim has a date that is present but does not parse answered with 400.
  The empty string is such a date (\<^verbatim>\<open>new Date("")\<close> is invalid), and the handler
  never parses it: it is falsy, the clock is used, and the request succeeds. The
  claim also has every duration that is not coercible to an integer answered with
  400; the handler rejects \<^verbatim>\<open>NaN\<close> only, and a numeral too large for a double
  parses to \<^verbatim>\<open>Infinity\<close>, which it stores.
\<close>

theorem empty_date_accepted:
  "xr_date emptyDateRequest = Some []
   \<and> Date_parse utcPlatform [] = None
   \<and> res (post_exercises utcPlatform noonEnv emptyDateRequest aliceStore)
       = \<lparr>status = 200,
          json = ExerciseBody
                   \<lparr>ej_username = ''alice'', ej_description = ''run'',
                    ej_duration = Finite 45, ej_date = ''Tue Jan 31 2023'',
                    ej_id = aliceId\<rparr>\<rparr>
   \<and> parseInt (xr_duration overflowRequest) = PosInfinity
   \<and> res (post_exercises utcPlatform noonEnv overflowRequest aliceStore)
       = \<lparr>status = 200,
          json = ExerciseBody
                   \<lparr>ej_username = ''alice'', ej_description = ''run'',
                    ej_duration = PosInfinity, ej_date = ''Tue Jan 31 2023'',
                    ej_id = aliceId\<rparr>\<rparr>"
proof -
  have a: "xr_date emptyDateRequest = Some []"
    by (simp add: emptyDateRequest_def)
  have b: "Date_parse utcPlatform [] = None"
    by code_simp
  have c: "res (post_exercises utcPlatform noonEnv emptyDateRequest aliceStore)
       = \<lparr>status = 200,
          json = ExerciseBody
                   \<lparr>ej_username = ''alice'', ej_description = ''run'',
                    ej_duration = Finite 45, ej_date = ''Tue Jan 31 2023'',
                    ej_id = aliceId\<rparr>\<rparr>"
    by code_simp
  have d: "parseInt (xr_duration overflowRequest) = PosInfinity"
    by code_simp
  have e: "res (post_exercises utcPlatform noonEnv overflowRequest aliceStore)
       = \<lparr>status = 200,
          json = ExerciseBody
                   \<lparr>ej_username = ''alice'', ej_description = ''run'',
                    ej_duration = PosInfinity, ej_date = ''Tue Jan 31 2023'',
                    ej_id = aliceId\<rparr>\<rparr>"
    by code_simp
  from a b c d e show ?thesis
    by (intro conjI)
qed

text \<open>
  C4, as the code has it. The exercise route answers 400 when the description or
  the duration is missing or empty, when \<^verbatim>\<open>parseInt\<close> reads the duration as \<^verbatim>\<open>NaN\<close>,
  when a non-empty date does not parse, and when the path identifier does not
  cast; the checks run in this order and the first that fails gives the message.
  It answers 404 exactly when all of them pass, the database answers, and no user
  has the identifier.
\<close>

theorem exercise_validation_order:
  "(\<not> truthy (xr_description rq) \<or> \<not> truthy (xr_duration rq) \<longrightarrow>
      res (post_exercises p ev rq s)
        = \<lparr>status = 400, json = Error ''Description and duration are required''\<rparr>)
   \<and> (truthy (xr_description rq) \<and> truthy (xr_duration rq)
      \<and> parseInt (xr_duration rq) = NaN \<longrightarrow>
      res (post_exercises p ev rq s)
        = \<lparr>status = 400, json = Error ''Duration must be a number''\<rparr>)
   \<and> (truthy (xr_description rq) \<and> truthy (xr_duration rq)
      \<and> parseInt (xr_duration rq) \<noteq> NaN
      \<and> (\<exists>ds. xr_date rq = Some ds \<and> ds \<noteq> [] \<and> Date_parse p ds = None) \<longrightarrow>
      res (post_exercises p ev rq s)
        = \<lparr>status = 400, json = Error ''Invalid date format''\<rparr>)
   \<and> (validBody p rq \<and> castObjectId p (xr_id rq) = None \<longrightarrow>
      res (post_exercises p ev rq s)
        = \<lparr>status = 400, json = Error ''Invalid user ID format''\<rparr>)
   \<and> (status (res (post_exercises p ev rq s)) = 404 \<longleftrightarrow>
        validBody p rq \<and> up s
        \<and> (\<exists>oid. castObjectId p (xr_id rq) = Some oid
              \<and> (\<forall>u \<in> set (users s). user_id u \<noteq> oid)))"
proof (intro conjI impI)
  assume "\<not> truthy (xr_description rq) \<or> \<not> truthy (xr_duration rq)"
  then show "res (post_exercises p ev rq s)
        = \<lparr>status = 400, json = Error ''Description and duration are required''\<rparr>"
    by (simp add: post_exercises_required reply_def)
next
  assume "truthy (xr_description rq) \<and> truthy (xr_duration rq)
      \<and> parseInt (xr_duration rq) = NaN"
  then show "res (post_exercises p ev rq s)
        = \<lparr>status = 400, json = Error ''Duration must be a number''\<rparr>"
    by (simp add: post_exercises_duration reply_def)
next
  assume "truthy (xr_description rq) \<and> truthy (xr_duration rq)
      \<and> parseInt (xr_duration rq) \<noteq> NaN
      \<and> (\<exists>ds. xr_date rq = Some ds \<and> ds \<noteq> [] \<and> Date_parse p ds = None)"
  then show "res (post_exercises p ev rq s)
        = \<lparr>status = 400, json = Error ''Invalid date format''\<rparr>"
    by (auto simp: post_exercises_date reply_def)
next
  assume "validBody p rq \<and> castObjectId p (xr_id rq) = None"
  then show "res (post_exercises p ev rq s)
        = \<lparr>status = 400, json = Error ''Invalid user ID format''\<rparr>"
    by (simp add: post_exercises_cast reply_def)
next
  show "status (res (post_exercises p ev rq s)) = 404 \<longleftrightarrow>
        validBody p rq \<and> up s
        \<and> (\<exists>oid. castObjectId p (xr_id rq) = Some oid
              \<and> (\<forall>u \<in> set (users s). user_id u \<noteq> oid))"
    by (simp add: post_exercises_404 find_None_iff)
qed

theorem exercise_validation_order_witness:
  "res (post_exercises utcPlatform noonEnv (runRequest\<lparr>xr_description := None\<rparr>) aliceStore)
     = \<lparr>status = 400, json = Error ''Description and duration are required''\<rparr>
   \<and> res (post_exercises utcPlatform noonEnv (runRequest\<lparr>xr_duration := Some ''abc''\<rparr>) aliceStore)
     = \<lparr>status = 400, json = Error ''Duration must be a number''\<rparr>
   \<and> res (post_exercises utcPlatform noonEnv (runRequest\<lparr>xr_date := Some ''tomorrow''\<rparr>) aliceStore)
     = \<lparr>status = 400, json = Error ''Invalid date format''\<rparr>
   \<and> res (post_exercises utcPlatform noonEnv (runRequest\<lparr>xr_id := ''xyz''\<rparr>) aliceStore)
     = \<lparr>status = 400, json = Error ''Invalid user ID format''\<rparr>
   \<and> status (res (post_exercises utcPlatform noonEnv runRequest emptyStore)) = 404"
proof -
  have a: "\<not> truthy (xr_description (runRequest\<lparr>xr_description := None\<rparr>))
           \<or> \<not> truthy (xr_duration (runRequest\<lparr>xr_description := None\<rparr>))"
    by (simp add: truthy_def)
  have b: "truthy (xr_description (runRequest\<lparr>xr_duration := Some ''abc''\<rparr>))
           \<and> truthy (xr_duration (runRequest\<lparr>xr_duration := Some ''abc''\<rparr>))
           \<and> parseInt (xr_duration (runRequest\<lparr>xr_duration := Some ''abc''\<rparr>)) = NaN"
    by code_simp
  have c1: "truthy (xr_description (runRequest\<lparr>xr_date := Some ''tomorrow''\<rparr>))
           \<and> truthy (xr_duration (runRequest\<lparr>xr_date := Some ''tomorrow''\<rparr>))
           \<and> parseInt (xr_duration (runRequest\<lparr>xr_date := Some ''tomorrow''\<rparr>)) \<noteq> NaN"
    by code_simp
  have c2: "Date_parse utcPlatform ''tomorrow'' = None"
    by code_simp
  have c: "truthy (xr_description (runRequest\<lparr>xr_date := Some ''tomorrow''\<rparr>))
           \<and> truthy (xr_duration (runRequest\<lparr>xr_date := Some ''tomorrow''\<rparr>))
           \<and> parseInt (xr_duration (runRequest\<lparr>xr_date := Some ''tomorrow''\<rparr>)) \<noteq> NaN
           \<and> (\<exists>ds. xr_date (runRequest\<lparr>xr_date := Some ''tomorrow''\<rparr>) = Some ds \<and> ds \<noteq> []
                 \<and> Date_parse utcPlatform ds = None)"
    using c1 c2 by simp
  have d: "validBody utcPlatform (runRequest\<lparr>xr_id := ''xyz''\<rparr>)
           \<and> castObjectId utcPlatform (xr_id (runRequest\<lparr>xr_id := ''xyz''\<rparr>)) = None"
    by code_simp
  have e1: "validBody utcPlatform runRequest \<and> up emptyStore
            \<and> castObjectId utcPlatform (xr_id runRequest) = Some aliceId"
    by code_simp
  have e: "validBody utcPlatform runRequest \<and> up emptyStore
        \<and> (\<exists>oid. castObjectId utcPlatform (xr_id runRequest) = Some oid
              \<and> (\<forall>u \<in> set (users emptyStore). user_id u \<noteq> oid))"
    using e1 by (simp add: emptyStore_def)
  note t1 = exercise_validation_order
    [of "runRequest\<lparr>xr_description := None\<rparr>" utcPlatform noonEnv aliceStore]
  note t2 = exercise_validation_order
    [of "runRequest\<lparr>xr_duration := Some ''abc''\<rparr>" utcPlatform noonEnv aliceStore]
  note t3 = exercise_validation_order
    [of "runRequest\<lparr>xr_date := Some ''tomorrow''\<rparr>" utcPlatform noonEnv aliceStore]
  note t4 = exercise_validation_order
    [of "runRequest\<lparr>xr_id := ''xyz''\<rparr>" utcPlatform noonEnv aliceStore]
  note t5 = exercise_validation_order [of runRequest utcPlatform noonEnv emptyStore]
  have r1: "res (post_exercises utcPlatform noonEnv (runRequest\<lparr>xr_description := None\<rparr>) aliceStore)
     = \<lparr>status = 400, json = Error ''Description and duration are required''\<rparr>"
    using t1 [THEN conjunct1] a by (rule mp)
  have r2: "res (post_exercises utcPlatform noonEnv (runRequest\<lparr>xr_duration := Some ''abc''\<rparr>) aliceStore)
     = \<lparr>status = 400, json = Error ''Duration must be a number''\<rparr>"
    using t2 [THEN conjunct2, THEN conjunct1] b by (rule mp)
  have r3: "res (post_exercises utcPlatform noonEnv (runRequest\<lparr>xr_date := Some ''tomorrow''\<rparr>) aliceStore)
     = \<lparr>status = 400, json = Error ''Invalid date format''\<rparr>"
    using t3 [THEN conjunct2, THEN conjunct2, THEN conjunct1] c by (rule mp)
  have r4: "res (post_exercises utcPlatform noonEnv (runRequest\<lparr>xr_id := ''xyz''\<rparr>) aliceStore)
     = \<lparr>status = 400, json = Error ''Invalid user ID format''\<rparr>"
    using t4 [THEN conjunct2, THEN conjunct2, THEN conjunct2, THEN conjunct1] d by (rule mp)
  have r5: "status (res (post_exercises utcPlatform noonEnv runRequest emptyStore)) = 404"
    using t5 [THEN conjunct2, THEN conjunct2, THEN conjunct2, THEN conjunct2] e by (rule iffD2)
  from r1 r2 r3 r4 r5 show ?thesis
    by (intro conjI)
qed

text \<open>
  C5. The claim has every 400 decided before any storage operation, whatever the
  state of the database. In the log route the \<^verbatim>\<open>from\<close> and \<^verbatim>\<open>to\<close> checks come after
  \<^verbatim>\<open>User.findById\<close>: the same request with an unparseable \<^verbatim>\<open>from\<close> is answered 400,
  after one storage call, when the user exists, and 404 when the collection is
  empty.
\<close>

theorem log_validation_after_lookup:
  "lr_from badFrom = Some ''abc''
   \<and> Date_parse utcPlatform ''abc'' = None
   \<and> res (get_logs utcPlatform noonEnv badFrom aliceStore)
       = \<lparr>status = 400, json = Error ''Invalid 'from' date format''\<rparr>
   \<and> calls (get_logs utcPlatform noonEnv badFrom aliceStore) = [FindUserById]
   \<and> res (get_logs utcPlatform noonEnv badFrom emptyStore)
       = \<lparr>status = 404, json = Error ''User not found''\<rparr>"
proof -
  have a: "lr_from badFrom = Some ''abc''"
    by (simp add: badFrom_def)
  have b: "Date_parse utcPlatform ''abc'' = None"
    by code_simp
  have c: "res (get_logs utcPlatform noonEnv badFrom aliceStore)
       = \<lparr>status = 400, json = Error ''Invalid 'from' date format''\<rparr>"
    by code_simp
  have d: "calls (get_logs utcPlatform noonEnv badFrom aliceStore) = [FindUserById]"
    by code_simp
  have e: "res (get_logs utcPlatform noonEnv badFrom emptyStore)
       = \<lparr>status = 404, json = Error ''User not found''\<rparr>"
    by code_simp
  from a b c d e show ?thesis
    by (intro conjI)
qed

text \<open>
  C5, as the code has it. A missing username in the user route and an invalid
  body in the exercise route are answered 400 before any storage call, with the
  database untouched and the same response in every state of it. A path
  identifier that does not cast is answered 400 by the lookup call itself, in
  every state of the database. In the log route a 400 for \<^verbatim>\<open>from\<close> or \<^verbatim>\<open>to\<close> is
  given only after the lookup, made on a database that answers, has found the
  user.
\<close>

theorem validation_before_storage:
  "(\<not> truthy name \<longrightarrow>
      post_users ev name s = reply 400 (Error ''Username is required'') s [])
   \<and> (\<not> validBody p rq \<longrightarrow>
        status (res (post_exercises p ev rq s)) = 400
      \<and> calls (post_exercises p ev rq s) = []
      \<and> db (post_exercises p ev rq s) = s
      \<and> res (post_exercises p ev rq s') = res (post_exercises p ev rq s))
   \<and> (validBody p rq \<and> castObjectId p (xr_id rq) = None \<longrightarrow>
        post_exercises p ev rq s
          = reply 400 (Error ''Invalid user ID format'') s [FindUserById])
   \<and> (castObjectId p (lr_id lq) = None \<longrightarrow>
        get_logs p ev lq s
          = reply 400 (Error ''Invalid user ID format'') s [FindUserById])
   \<and> (status (res (get_logs p ev lq s)) = 400 \<and> castObjectId p (lr_id lq) \<noteq> None \<longrightarrow>
        calls (get_logs p ev lq s) = [FindUserById] \<and> up s
      \<and> (\<exists>u \<in> set (users s). Some (user_id u) = castObjectId p (lr_id lq))
      \<and> (dateBound p (lr_from lq) = InvalidBound \<or> dateBound p (lr_to lq) = InvalidBound))"
proof (intro conjI impI)
  assume "\<not> truthy name"
  then show "post_users ev name s = reply 400 (Error ''Username is required'') s []"
    by (simp add: post_users_def)
next
  assume inv: "\<not> validBody p rq"
  from invalid_body_400 [OF inv, of ev s s'] obtain msg where
    "post_exercises p ev rq s = reply 400 (Error msg) s []"
    "post_exercises p ev rq s' = reply 400 (Error msg) s' []"
    by blast
  then show "status (res (post_exercises p ev rq s)) = 400"
    and "calls (post_exercises p ev rq s) = []"
    and "db (post_exercises p ev rq s) = s"
    and "res (post_exercises p ev rq s') = res (post_exercises p ev rq s)"
    by (simp_all add: reply_def)
next
  assume "validBody p rq \<and> castObjectId p (xr_id rq) = None"
  then show "post_exercises p ev rq s
          = reply 400 (Error ''Invalid user ID format'') s [FindUserById]"
    by (simp add: post_exercises_cast)
next
  assume "castObjectId p (lr_id lq) = None"
  then show "get_logs p ev lq s
          = reply 400 (Error ''Invalid user ID format'') s [FindUserById]"
    by (simp add: get_logs_def User_findById_def logs_catch_def)
next
  assume h: "status (res (get_logs p ev lq s)) = 400 \<and> castObjectId p (lr_id lq) \<noteq> None"
  then obtain oid where cast: "castObjectId p (lr_id lq) = Some oid"
    by blast
  from h cast have "calls (get_logs p ev lq s) = [FindUserById] \<and> up s
      \<and> find (\<lambda>u. user_id u = oid) (users s) \<noteq> None
      \<and> (dateBound p (lr_from lq) = InvalidBound \<or> dateBound p (lr_to lq) = InvalidBound)"
    by (auto simp: get_logs_def User_findById_def logs_catch_def reply_def
          Exercise_find_def Let_def
        split: if_splits option.splits sum.splits)
  then show "calls (get_logs p ev lq s) = [FindUserById]" and "up s"
    and "\<exists>u \<in> set (users s). Some (user_id u) = castObjectId p (lr_id lq)"
    and "dateBound p (lr_from lq) = InvalidBound \<or> dateBound p (lr_to lq) = InvalidBound"
    using cast by (auto simp: find_None_iff)
qed

theorem validation_before_storage_witness:
  "post_users noonEnv (Some []) aliceStore
     = reply 400 (Error ''Username is required'') aliceStore []
   \<and> status (res (post_exercises utcPlatform noonEnv
                    (runRequest\<lparr>xr_duration := Some ''abc''\<rparr>) aliceStore)) = 400
   \<and> calls (post_exercises utcPlatform noonEnv
              (runRequest\<lparr>xr_duration := Some ''abc''\<rparr>) aliceStore) = []
   \<and> db (post_exercises utcPlatform noonEnv
           (runRequest\<lparr>xr_duration := Some ''abc''\<rparr>) aliceStore) = aliceStore
   \<and> res (post_exercises utcPlatform noonEnv
            (runRequest\<lparr>xr_duration := Some ''abc''\<rparr>) emptyStore)
       = res (post_exercises utcPlatform noonEnv
                (runRequest\<lparr>xr_duration := Some ''abc''\<rparr>) aliceStore)
   \<and> post_exercises utcPlatform noonEnv (runRequest\<lparr>xr_id := ''xyz''\<rparr>) aliceStore
       = reply 400 (Error ''Invalid user ID format'') aliceStore [FindUserById]
   \<and> get_logs utcPlatform noonEnv (allLogs\<lparr>lr_id := ''xyz''\<rparr>) aliceStore
       = reply 400 (Error ''Invalid user ID format'') aliceStore [FindUserById]
   \<and> calls (get_logs utcPlatform noonEnv badFrom aliceStore) = [FindUserById]
   \<and> up aliceStore
   \<and> (\<exists>u \<in> set (users aliceStore).
         Some (user_id u) = castObjectId utcPlatform (lr_id badFrom))"
proof -
  note t = validation_before_storage
    [of "Some []" noonEnv aliceStore utcPlatform "runRequest\<lparr>xr_duration := Some ''abc''\<rparr>"
        emptyStore badFrom]
  note u = validation_before_storage
    [of "Some []" noonEnv aliceStore utcPlatform "runRequest\<lparr>xr_id := ''xyz''\<rparr>"
        emptyStore "allLogs\<lparr>lr_id := ''xyz''\<rparr>"]
  have a: "\<not> truthy (Some [])"
    by (simp add: truthy_def)
  have b: "\<not> validBody utcPlatform (runRequest\<lparr>xr_duration := Some ''abc''\<rparr>)"
    by code_simp
  have c: "validBody utcPlatform (runRequest\<lparr>xr_id := ''xyz''\<rparr>)
           \<and> castObjectId utcPlatform (xr_id (runRequest\<lparr>xr_id := ''xyz''\<rparr>)) = None"
    by code_simp
  have d: "castObjectId utcPlatform (lr_id (allLogs\<lparr>lr_id := ''xyz''\<rparr>)) = None"
    by code_simp
  have e1: "status (res (get_logs utcPlatform noonEnv badFrom aliceStore)) = 400"
    by code_simp
  have e2: "castObjectId utcPlatform (lr_id badFrom) = Some aliceId"
    by code_simp
  have e: "status (res (get_logs utcPlatform noonEnv badFrom aliceStore)) = 400
           \<and> castObjectId utcPlatform (lr_id badFrom) \<noteq> None"
    using e1 e2 by simp
  have r1: "post_users noonEnv (Some []) aliceStore
     = reply 400 (Error ''Username is required'') aliceStore []"
    using t [THEN conjunct1] a by (rule mp)
  have r2: "status (res (post_exercises utcPlatform noonEnv
                    (runRequest\<lparr>xr_duration := Some ''abc''\<rparr>) aliceStore)) = 400
      \<and> calls (post_exercises utcPlatform noonEnv
              (runRequest\<lparr>xr_duration := Some ''abc''\<rparr>) aliceStore) = []
      \<and> db (post_exercises utcPlatform noonEnv
           (runRequest\<lparr>xr_duration := Some ''abc''\<rparr>) aliceStore) = aliceStore
      \<and> res (post_exercises utcPlatform noonEnv
            (runRequest\<lparr>xr_duration := Some ''abc''\<rparr>) emptyStore)
       = res (post_exercises utcPlatform noonEnv
                (runRequest\<lparr>xr_duration := Some ''abc''\<rparr>) aliceStore)"
    using t [THEN conjunct2, THEN conjunct1] b by (rule mp)
  have r3: "post_exercises utcPlatform noonEnv (runRequest\<lparr>xr_id := ''xyz''\<rparr>) aliceStore
       = reply 400 (Error ''Invalid user ID format'') aliceStore [FindUserById]"
    using u [THEN conjunct2, THEN conjunct2, THEN conjunct1] c by (rule mp)
  have r4: "get_logs utcPlatform noonEnv (allLogs\<lparr>lr_id := ''xyz''\<rparr>) aliceStore
       = reply 400 (Error ''Invalid user ID format'') aliceStore [FindUserById]"
    using u [THEN conjunct2, THEN conjunct2, THEN conjunct2, THEN conjunct1] d by (rule mp)
  have r5: "calls (get_logs utcPlatform noonEnv badFrom aliceStore) = [FindUserById]
      \<and> up aliceStore
      \<and> (\<exists>u \<in> set (users aliceStore).
            Some (user_id u) = castObjectId utcPlatform (lr_id badFrom))
      \<and> (dateBound utcPlatform (lr_from badFrom) = InvalidBound
          \<or> dateBound utcPlatform (lr_to badFrom) = InvalidBound)"
    using t [THEN conjunct2, THEN conjunct2, THEN conjunct2, THEN conjunct2] e by (rule mp)
  from r1 r2 r3 r4 r5 show ?thesis
    by (intro conjI) (elim conjE, assumption)+
qed

text \<open>
  C6. The claim quotes the message as \<^verbatim>\<open>username already taken\<close>; the handler sends
  \<^verbatim>\<open>Username already taken\<close>. In \<open>raceEnv\<close> another request inserts \<^verbatim>\<open>bob\<close> between
  the lookup and the insert, the insert is rejected with code 11000, and the
  answer is 400 with the capitalised message.
\<close>

theorem taken_message_differs:
  "User_findOne aliceStore ''bob'' = Inr None
   \<and> User_save (between raceEnv aliceStore) \<lparr>user_id = newId raceEnv, username = ''bob''\<rparr>
       = Inl (ServerError 11000)
   \<and> res (post_users raceEnv (Some ''bob'') aliceStore)
       = \<lparr>status = 400, json = Error ''Username already taken''\<rparr>
   \<and> res (post_users raceEnv (Some ''bob'') aliceStore)
       \<noteq> \<lparr>status = 400, json = Error ''username already taken''\<rparr>"
proof -
  have a: "User_findOne aliceStore ''bob'' = Inr None"
    by code_simp
  have b: "User_save (between raceEnv aliceStore) \<lparr>user_id = newId raceEnv, username = ''bob''\<rparr>
       = Inl (ServerError 11000)"
    by code_simp
  have c: "res (post_users raceEnv (Some ''bob'') aliceStore)
       = \<lparr>status = 400, json = Error ''Username already taken''\<rparr>"
    by code_simp
  have d: "res (post_users raceEnv (Some ''bob'') aliceStore)
       \<noteq> \<lparr>status = 400, json = Error ''username already taken''\<rparr>"
    unfolding c by simp
  from a b c d show ?thesis
    by (intro conjI)
qed

text \<open>
  C6, as the code has it. When the lookup finds no user and the insert is
  rejected with the duplicate key error (code 11000), the answer is 400 with the
  message \<^verbatim>\<open>Username already taken\<close>, not the 500 of the other storage errors.
\<close>

theorem duplicate_key_is_400:
  assumes "truthy name"
    and "User_findOne s (ToString name) = Inr None"
    and "User_save (between ev s) \<lparr>user_id = newId ev, username = ToString name\<rparr>
           = Inl (ServerError 11000)"
  shows "post_users ev name s =
           reply 400 (Error ''Username already taken'') (between ev s) [FindOneUser, SaveUser]"
  using assms by (simp add: post_users_def users_catch_def Let_def)

theorem duplicate_key_is_400_witness:
  "(truthy (Some ''bob'')
    \<and> User_findOne aliceStore (ToString (Some ''bob'')) = Inr None
    \<and> User_save (between raceEnv aliceStore)
         \<lparr>user_id = newId raceEnv, username = ToString (Some ''bob'')\<rparr>
       = Inl (ServerError 11000))
   \<and> post_users raceEnv (Some ''bob'') aliceStore =
       reply 400 (Error ''Username already taken'') (between raceEnv aliceStore)
         [FindOneUser, SaveUser]"
proof -
  have h1: "truthy (Some ''bob'')"
    by (simp add: truthy_def)
  have h2: "User_findOne aliceStore (ToString (Some ''bob'')) = Inr None"
    by code_simp
  have h3: "User_save (between raceEnv aliceStore)
         \<lparr>user_id = newId raceEnv, username = ToString (Some ''bob'')\<rparr>
       = Inl (ServerError 11000)"
    by code_simp
  from h1 h2 h3 duplicate_key_is_400 [OF h1 h2 h3] show ?thesis
    by (intro conjI)
qed

text \<open>
  C7. Creating a user whose username is already in the collection returns the
  stored record (its id and username) with status 200, after one lookup and no
  insert: the database is left as it was. The database is taken to answer, and
  the usernames in it to be distinct, as the unique index keeps them.
\<close>

theorem existing_username_returned:
  assumes "up s"
    and "u \<in> set (users s)"
    and "username u \<noteq> []"
    and "distinct (map username (users s))"
  shows "post_users ev (Some (username u)) s =
           reply 200 (UserBody \<lparr>uj_username = username u, uj_id = user_id u\<rparr>) s [FindOneUser]"
proof -
  have "find (\<lambda>v. username v = username u) (users s) = Some u"
    using assms(2,4) by (rule find_unique)
  then have "User_findOne s (username u) = Inr (Some u)"
    using assms(1) by (simp add: User_findOne_def)
  then show ?thesis
    using assms(3) by (simp add: post_users_def truthy_def ToString_def)
qed

theorem existing_username_returned_witness:
  "(up aliceStore \<and> alice \<in> set (users aliceStore) \<and> username alice \<noteq> []
    \<and> distinct (map username (users aliceStore)))
   \<and> post_users noonEnv (Some (username alice)) aliceStore =
       reply 200 (UserBody \<lparr>uj_username = username alice, uj_id = user_id alice\<rparr>)
         aliceStore [FindOneUser]"
proof -
  have h1: "up aliceStore"
    by (simp add: aliceStore_def)
  have h2: "alice \<in> set (users aliceStore)"
    by (simp add: aliceStore_def)
  have h3: "username alice \<noteq> []"
    by (simp add: alice_def)
  have h4: "distinct (map username (users aliceStore))"
    by (simp add: aliceStore_def)
  from h1 h2 h3 h4 existing_username_returned [OF h1 h2 h3 h4, of noonEnv]
  show ?thesis
    by (intro conjI)
qed

text \<open>
  C8. Round trip. After the exercise route answered 200 with a body \<open>ej\<close>, a later
  request to the log route for the same path identifier, with no \<^verbatim>\<open>from\<close>, \<^verbatim>\<open>to\<close> or
  \<^verbatim>\<open>limit\<close>, answers 200 with a log that contains the entry made of the description,
  the duration and the date string of \<open>ej\<close>. "Later" is any state of a database that
  answers and in which the user and the exercises of the first state are still
  present (the service never deletes).
\<close>

theorem created_exercise_is_logged:
  assumes post: "res (post_exercises p ev rq s) = \<lparr>status = 200, json = ExerciseBody ej\<rparr>"
    and up: "up s'" "up (between ev' s')"
    and user: "\<exists>u \<in> set (users s'). Some (user_id u) = castObjectId p (xr_id rq)"
    and kept: "set (exercises (db (post_exercises p ev rq s))) \<subseteq> set (exercises (between ev' s'))"
  shows "\<exists>lj. res (get_logs p ev' \<lparr>lr_id = xr_id rq, lr_from = None, lr_to = None,
                                   lr_limit = None\<rparr> s')
               = \<lparr>status = 200, json = LogBody lj\<rparr>
             \<and> entryOf ej \<in> set (lj_log lj)"
proof -
  from post have "status (res (post_exercises p ev rq s)) = 200"
    by simp
  from post_exercises_ok [OF this] obtain oid usr d where
    cast: "castObjectId p (xr_id rq) = Some oid"
    and usr: "find (\<lambda>u. user_id u = oid) (users s) = Some usr"
    and out: "post_exercises p ev rq s =
             reply 200
               (ExerciseBody
                  \<lparr>ej_username = username usr,
                   ej_description = ToString (xr_description rq),
                   ej_duration = parseInt (xr_duration rq),
                   ej_date = toDateString p d,
                   ej_id = user_id usr\<rparr>)
               ((between ev s)
                  \<lparr>exercises := exercises (between ev s) @
                     [\<lparr>exercise_id = newId ev, userId = user_id usr,
                       description = ToString (xr_description rq),
                       duration = parseInt (xr_duration rq), date = d\<rparr>]\<rparr>)
               [FindUserById, SaveExercise]"
    by blast
  define e where "e = \<lparr>exercise_id = newId ev, userId = user_id usr,
                       description = ToString (xr_description rq),
                       duration = parseInt (xr_duration rq), date = d\<rparr>"
  have oid: "user_id usr = oid"
    using find_SomeD [OF usr] by simp
  have ej: "ej = \<lparr>ej_username = username usr,
                   ej_description = ToString (xr_description rq),
                   ej_duration = parseInt (xr_duration rq),
                   ej_date = toDateString p d,
                   ej_id = user_id usr\<rparr>"
    using post out by (simp add: reply_def)
  have "e \<in> set (exercises (db (post_exercises p ev rq s)))"
    using out by (simp add: reply_def e_def)
  with kept have mem: "e \<in> set (exercises (between ev' s'))"
    by blast
  have entry: "logEntry p e = entryOf ej"
    by (simp add: logEntry_def entryOf_def ej e_def)
  from user cast have "find (\<lambda>u. user_id u = oid) (users s') \<noteq> None"
    by (auto simp: find_None_iff)
  then obtain usr' where usr': "find (\<lambda>u. user_id u = oid) (users s') = Some usr'"
    by blast
  define req where "req = \<lparr>lr_id = xr_id rq, lr_from = None, lr_to = None, lr_limit = None\<rparr>"
  define exs where "exs = filter (matches oid \<lparr>q_userId = xr_id rq, q_gte = None,
                                     q_lte = None, q_limit = None\<rparr>)
                            (exercises (between ev' s'))"
  have "get_logs p ev' req s' =
          reply 200
            (LogBody \<lparr>lj_username = username usr', lj_count = length exs,
                      lj_id = user_id usr', lj_log = map (logEntry p) exs\<rparr>)
            (between ev' s') [FindUserById, FindExercises]"
    using cast up usr'
    by (simp add: get_logs_def req_def User_findById_def dateBound_def truthy_def
          boundValue_def limitOf_None Exercise_find_def applyLimit_def
          exs_def Let_def)
  moreover have "entryOf ej \<in> set (map (logEntry p) exs)"
    using mem entry oid by (force simp: exs_def e_def matches_def)
  ultimately show ?thesis
    unfolding req_def by (simp add: reply_def)
qed

theorem created_exercise_is_logged_witness:
  "(res (post_exercises utcPlatform noonEnv runRequest aliceStore)
      = \<lparr>status = 200,
         json = ExerciseBody
                  \<lparr>ej_username = ''alice'', ej_description = ''run'',
                   ej_duration = Finite 45, ej_date = ''Tue Jan 31 2023'',
                   ej_id = aliceId\<rparr>\<rparr>
    \<and> up oneStore \<and> up (between laterEnv oneStore)
    \<and> (\<exists>u \<in> set (users oneStore).
          Some (user_id u) = castObjectId utcPlatform (xr_id runRequest))
    \<and> set (exercises (db (post_exercises utcPlatform noonEnv runRequest aliceStore)))
        \<subseteq> set (exercises (between laterEnv oneStore)))
   \<and> (\<exists>lj. res (get_logs utcPlatform laterEnv
                  \<lparr>lr_id = xr_id runRequest, lr_from = None, lr_to = None,
                   lr_limit = None\<rparr> oneStore)
              = \<lparr>status = 200, json = LogBody lj\<rparr>
            \<and> entryOf \<lparr>ej_username = ''alice'', ej_description = ''run'',
                       ej_duration = Finite 45, ej_date = ''Tue Jan 31 2023'',
                       ej_id = aliceId\<rparr>
                \<in> set (lj_log lj))"
proof -
  have h1: "res (post_exercises utcPlatform noonEnv runRequest aliceStore)
      = \<lparr>status = 200,
         json = ExerciseBody
                  \<lparr>ej_username = ''alice'', ej_description = ''run'',
                   ej_duration = Finite 45, ej_date = ''Tue Jan 31 2023'',
                   ej_id = aliceId\<rparr>\<rparr>"
    by code_simp
  have h2: "up oneStore"
    by code_simp
  have h3: "up (between laterEnv oneStore)"
    by code_simp
  have h4: "\<exists>u \<in> set (users oneStore).
          Some (user_id u) = castObjectId utcPlatform (xr_id runRequest)"
    by code_simp
  have h5: "set (exercises (db (post_exercises utcPlatform noonEnv runRequest aliceStore)))
        \<subseteq> set (exercises (between laterEnv oneStore))"
    by (simp add: oneStore_def laterEnv_def)
  from h1 h2 h3 h4 h5 created_exercise_is_logged [OF h1 h2 h3 h4 h5]
  show ?thesis
    by (intro conjI)
qed

text \<open>
  C9. In the exercise route a \<^verbatim>\<open>date\<close> sent as the empty string is treated as an
  omitted one, because the handler tests the value for falsiness before it parses
  it. The whole outcome (response, database, calls) is that of the request
  without the field; the answer is never the 400 of an invalid date; and when the
  other checks pass, the user is found and the database takes the insert, the
  answer is 200 and the exercise is stored with the clock's date.
\<close>

theorem empty_date_is_omitted:
  "post_exercises p ev (rq\<lparr>xr_date := Some []\<rparr>) s
     = post_exercises p ev (rq\<lparr>xr_date := None\<rparr>) s
   \<and> res (post_exercises p ev (rq\<lparr>xr_date := Some []\<rparr>) s)
       \<noteq> \<lparr>status = 400, json = Error ''Invalid date format''\<rparr>
   \<and> (xr_description rq = Some dsc \<and> dsc \<noteq> []
      \<and> parseInt (xr_duration rq) = x \<and> x \<noteq> NaN
      \<and> User_findById p s (xr_id rq) = Inr (Some usr)
      \<and> up (between ev s)
      \<and> (\<forall>e \<in> set (exercises (between ev s)). exercise_id e \<noteq> newId ev)
      \<longrightarrow>
        post_exercises p ev (rq\<lparr>xr_date := Some []\<rparr>) s =
          reply 200
            (ExerciseBody
               \<lparr>ej_username = username usr, ej_description = dsc,
                ej_duration = x, ej_date = toDateString p (now ev),
                ej_id = user_id usr\<rparr>)
            ((between ev s)
               \<lparr>exercises := exercises (between ev s) @
                  [\<lparr>exercise_id = newId ev, userId = user_id usr, description = dsc,
                    duration = x, date = now ev\<rparr>]\<rparr>)
            [FindUserById, SaveExercise])"
proof (intro conjI impI)
  show "post_exercises p ev (rq\<lparr>xr_date := Some []\<rparr>) s
          = post_exercises p ev (rq\<lparr>xr_date := None\<rparr>) s"
    by (rule post_exercises_empty_date)
next
  have ne: "exerciseDate p ev (xr_date (rq\<lparr>xr_date := Some []\<rparr>)) \<noteq> None"
    by (simp add: exerciseDate_def truthy_def)
  show "res (post_exercises p ev (rq\<lparr>xr_date := Some []\<rparr>) s)
               \<noteq> \<lparr>status = 400, json = Error ''Invalid date format''\<rparr>"
  proof
    assume "res (post_exercises p ev (rq\<lparr>xr_date := Some []\<rparr>) s)
              = \<lparr>status = 400, json = Error ''Invalid date format''\<rparr>"
    then have "exerciseDate p ev (xr_date (rq\<lparr>xr_date := Some []\<rparr>)) = None"
      by (rule post_exercises_date_error)
    with ne show False
      by (rule notE)
  qed
next
  assume h: "xr_description rq = Some dsc \<and> dsc \<noteq> []
      \<and> parseInt (xr_duration rq) = x \<and> x \<noteq> NaN
      \<and> User_findById p s (xr_id rq) = Inr (Some usr)
      \<and> up (between ev s)
      \<and> (\<forall>e \<in> set (exercises (between ev s)). exercise_id e \<noteq> newId ev)"
  have d: "exerciseDate p ev (xr_date (rq\<lparr>xr_date := Some []\<rparr>)) = Some (now ev)"
    by (simp add: exerciseDate_def truthy_def)
  show "post_exercises p ev (rq\<lparr>xr_date := Some []\<rparr>) s =
          reply 200
            (ExerciseBody
               \<lparr>ej_username = username usr, ej_description = dsc,
                ej_duration = x, ej_date = toDateString p (now ev),
                ej_id = user_id usr\<rparr>)
            ((between ev s)
               \<lparr>exercises := exercises (between ev s) @
                  [\<lparr>exercise_id = newId ev, userId = user_id usr, description = dsc,
                    duration = x, date = now ev\<rparr>]\<rparr>)
            [FindUserById, SaveExercise]"
    using h by (intro post_exercises_accepts [OF _ _ _ _ d]) simp_all
qed

theorem empty_date_is_omitted_witness:
  "post_exercises utcPlatform noonEnv (runRequest\<lparr>xr_date := Some []\<rparr>) aliceStore
     = post_exercises utcPlatform noonEnv (runRequest\<lparr>xr_date := None\<rparr>) aliceStore
   \<and> res (post_exercises utcPlatform noonEnv (runRequest\<lparr>xr_date := Some []\<rparr>) aliceStore)
       \<noteq> \<lparr>status = 400, json = Error ''Invalid date format''\<rparr>
   \<and> post_exercises utcPlatform noonEnv (runRequest\<lparr>xr_date := Some []\<rparr>) aliceStore =
       reply 200
         (ExerciseBody
            \<lparr>ej_username = username alice, ej_description = ''run'',
             ej_duration = Finite 45, ej_date = toDateString utcPlatform (now noonEnv),
             ej_id = user_id alice\<rparr>)
         ((between noonEnv aliceStore)
            \<lparr>exercises := exercises (between noonEnv aliceStore) @
               [\<lparr>exercise_id = newId noonEnv, userId = user_id alice, description = ''run'',
                 duration = Finite 45, date = now noonEnv\<rparr>]\<rparr>)
         [FindUserById, SaveExercise]
   \<and> now noonEnv = 1675166400000
   \<and> toDateString utcPlatform (now noonEnv) = ''Tue Jan 31 2023''"
proof -
  note t = empty_date_is_omitted
    [of utcPlatform noonEnv runRequest aliceStore "''run''" "Finite 45" alice]
  have h1: "xr_description runRequest = Some ''run'' \<and> ''run'' \<noteq> []"
    by (simp add: runRequest_def)
  have h2: "parseInt (xr_duration runRequest) = Finite 45 \<and> Finite 45 \<noteq> NaN"
    by code_simp
  have h3: "User_findById utcPlatform aliceStore (xr_id runRequest) = Inr (Some alice)"
    by code_simp
  have h4: "up (between noonEnv aliceStore)
            \<and> (\<forall>e \<in> set (exercises (between noonEnv aliceStore)). exercise_id e \<noteq> newId noonEnv)"
    by (simp add: noonEnv_def aliceStore_def)
  have h: "xr_description runRequest = Some ''run'' \<and> ''run'' \<noteq> []
      \<and> parseInt (xr_duration runRequest) = Finite 45 \<and> Finite 45 \<noteq> NaN
      \<and> User_findById utcPlatform aliceStore (xr_id runRequest) = Inr (Some alice)
      \<and> up (between noonEnv aliceStore)
      \<and> (\<forall>e \<in> set (exercises (between noonEnv aliceStore)). exercise_id e \<noteq> newId noonEnv)"
    using h1 h2 h3 h4 by (intro conjI) (elim conjE, assumption)+
  have r1: "post_exercises utcPlatform noonEnv (runRequest\<lparr>xr_date := Some []\<rparr>) aliceStore
     = post_exercises utcPlatform noonEnv (runRequest\<lparr>xr_date := None\<rparr>) aliceStore"
    using t by (rule conjunct1)
  have r2: "res (post_exercises utcPlatform noonEnv (runRequest\<lparr>xr_date := Some []\<rparr>) aliceStore)
       \<noteq> \<lparr>status = 400, json = Error ''Invalid date format''\<rparr>"
    using t [THEN conjunct2] by (rule conjunct1)
  have r3: "post_exercises utcPlatform noonEnv (runRequest\<lparr>xr_date := Some []\<rparr>) aliceStore =
       reply 200
         (ExerciseBody
            \<lparr>ej_username = username alice, ej_description = ''run'',
             ej_duration = Finite 45, ej_date = toDateString utcPlatform (now noonEnv),
             ej_id = user_id alice\<rparr>)
         ((between noonEnv aliceStore)
            \<lparr>exercises := exercises (between noonEnv aliceStore) @
               [\<lparr>exercise_id = newId noonEnv, userId = user_id alice, description = ''run'',
                 duration = Finite 45, date = now noonEnv\<rparr>]\<rparr>)
         [FindUserById, SaveExercise]"
    using t [THEN conjunct2, THEN conjunct2] h by (rule mp)
  have r4: "now noonEnv = 1675166400000"
    by (simp add: noonEnv_def)
  have r5: "toDateString utcPlatform (now noonEnv) = ''Tue Jan 31 2023''"
    by code_simp
  from r1 r2 r3 r4 r5 show ?thesis
    by (intro conjI)
qed




end
